theory Spec2Isabelle
  imports Main "HOL-Library.Word"
begin

section \<open>Go values used by isk/db/character.go\<close>

text \<open>
  \<open>int32\<close> and \<open>int64\<close> are machine words: \<open>+\<close> and \<open>-\<close> wrap around as Go's do,
  \<open>sint\<close> reads the two's complement value. A \<open>float64\<close> is its IEEE-754 binary64 bit
  pattern (what \<open>math.Float64bits\<close> returns): bit 63 the sign, bits 62..52 the biased
  exponent, bits 51..0 the fraction. A \<open>time.Time\<close> is modelled by its instant, an integer
  count of nanoseconds since the zero time (January 1, year 1, 00:00:00 UTC); the
  location and the monotonic clock reading, which \<open>Before\<close> and \<open>IsZero\<close> do not read,
  are left out. An \<open>error\<close> is its message.
\<close>

type_synonym int32 = "32 word"
type_synonym int64 = "64 word"
type_synonym float64 = "64 word"
type_synonym time = int
type_synonym error = string

definition IsZero :: "time \<Rightarrow> bool" where
  "IsZero t = (t = 0)"

definition Before :: "time \<Rightarrow> time \<Rightarrow> bool" where
  "Before t u = (t < u)"

text \<open>A panic ends the call: either \<open>panic(err)\<close> with its message, or the runtime's
  nil pointer dereference.\<close>

datatype panic = Panic error | NilPointerDereference

subsection \<open>float64 addition and subtraction (IEEE-754 binary64, round to nearest even)\<close>

text \<open>\<open>bitlen n\<close> is the number of binary digits of \<open>n\<close>.\<close>

fun bitlen :: "nat \<Rightarrow> nat" where
  "bitlen n = (if n = 0 then 0 else Suc (bitlen (n div 2)))"

declare bitlen.simps [simp del]

definition f64_sign :: "float64 \<Rightarrow> bool" where
  "f64_sign x = (2 ^ 63 \<le> unat x)"

definition f64_exp :: "float64 \<Rightarrow> nat" where
  "f64_exp x = (unat x div 2 ^ 52) mod 2048"

definition f64_frac :: "float64 \<Rightarrow> nat" where
  "f64_frac x = unat x mod 2 ^ 52"

definition f64_is_nan :: "float64 \<Rightarrow> bool" where
  "f64_is_nan x = (f64_exp x = 2047 \<and> f64_frac x \<noteq> 0)"

definition f64_is_inf :: "float64 \<Rightarrow> bool" where
  "f64_is_inf x = (f64_exp x = 2047 \<and> f64_frac x = 0)"

text \<open>Negation flips the sign bit.\<close>

definition f64_neg :: "float64 \<Rightarrow> float64" where
  "f64_neg x = x + 2 ^ 63"

text \<open>
  A finite \<open>x\<close> has the magnitude \<open>f64_mant x * 2 ^ (f64_scale x - 1075)\<close>: a subnormal
  (exponent field 0) has no hidden bit and the scale 1.
\<close>

definition f64_mant :: "float64 \<Rightarrow> nat" where
  "f64_mant x = (if f64_exp x = 0 then f64_frac x else 2 ^ 52 + f64_frac x)"

definition f64_scale :: "float64 \<Rightarrow> nat" where
  "f64_scale x = (if f64_exp x = 0 then 1 else f64_exp x)"

definition f64_bits :: "bool \<Rightarrow> nat \<Rightarrow> float64" where
  "f64_bits neg b = word_of_int (int (if neg then b + 2 ^ 63 else b))"

text \<open>\<open>round_half_even p d\<close> is \<open>p / d\<close> rounded to the nearest integer, a tie to the
  even one.\<close>

definition round_half_even :: "nat \<Rightarrow> nat \<Rightarrow> nat" where
  "round_half_even p d =
     (let n = p div d; r = p mod d
      in if d < 2 * r \<or> (2 * r = d \<and> odd n) then n + 1 else n)"

text \<open>
  \<open>f64_round neg p q t\<close> is the float64 nearest to \<open>p / q * 2 ^ t\<close> (for \<open>p, q > 0\<close>),
  with the sign \<open>neg\<close>. In units of \<open>2 ^ - 1074\<close> (the smallest subnormal) the value is
  \<open>p / q * 2 ^ s\<close>; its integer part has \<open>d + c + s\<close> binary digits, of which 53 are
  kept, so the value is rounded to a multiple of \<open>2 ^ k\<close> units. The bit pattern of the
  magnitude \<open>n * 2 ^ k\<close> units (with \<open>n < 2 ^ 53\<close>, and \<open>2 ^ 52 \<le> n\<close> unless \<open>k = 0\<close>)
  is \<open>k * 2 ^ 52 + n\<close>; a carry to \<open>n = 2 ^ 53\<close> lands on the next exponent by the same
  sum, and a pattern at or beyond the exponent field 2047 is the infinity.
\<close>

definition f64_round :: "bool \<Rightarrow> nat \<Rightarrow> nat \<Rightarrow> int \<Rightarrow> float64" where
  "f64_round neg p q t =
     (let d = int (bitlen p) - int (bitlen q);
          c = (if q * 2 ^ nat d \<le> p * 2 ^ nat (- d) then 1 else 0);
          s = t + 1074;
          k = max 0 (d + c + s - 53);
          n = (if k \<le> s then round_half_even (p * 2 ^ nat (s - k)) q
               else round_half_even p (q * 2 ^ nat (k - s)));
          b = nat k * 2 ^ 52 + n
      in f64_bits neg (min b (2047 * 2 ^ 52)))"

text \<open>NaN operands: the result is the first NaN operand, made quiet (as the amd64
  instructions \<open>ADDSD\<close> and \<open>SUBSD\<close> do; Go leaves the payload of a NaN open).\<close>

definition f64_quiet :: "float64 \<Rightarrow> float64" where
  "f64_quiet x = (if f64_frac x < 2 ^ 51 then x + 2 ^ 51 else x)"

definition f64_nan_of :: "float64 \<Rightarrow> float64 \<Rightarrow> float64" where
  "f64_nan_of a b = (if f64_is_nan a then f64_quiet a else f64_quiet b)"

text \<open>The signed mantissa of a finite \<open>x\<close> in units of \<open>2 ^ (e0 - 1075)\<close>, for
  \<open>e0 \<le> f64_scale x\<close>.\<close>

definition f64_signed :: "float64 \<Rightarrow> nat \<Rightarrow> int" where
  "f64_signed x e0 =
     (let m = int (f64_mant x * 2 ^ (f64_scale x - e0)) in if f64_sign x then - m else m)"

text \<open>
  Go's \<open>a + b\<close> on float64: the exact sum, rounded once. Infinities of opposite signs
  give the default NaN; an exact zero sum is \<open>-0\<close> only when both operands are negative
  (zeros).
\<close>

definition f64_add :: "float64 \<Rightarrow> float64 \<Rightarrow> float64" where
  "f64_add a b =
     (if f64_is_nan a \<or> f64_is_nan b then f64_nan_of a b
      else if f64_is_inf a then
        (if f64_is_inf b \<and> f64_sign a \<noteq> f64_sign b then 0xFFF8000000000000 else a)
      else if f64_is_inf b then b
      else (let e0 = min (f64_scale a) (f64_scale b);
                s = f64_signed a e0 + f64_signed b e0
            in if s = 0 then f64_bits (f64_sign a \<and> f64_sign b) 0
               else f64_round (s < 0) (nat \<bar>s\<bar>) 1 (int e0 - 1075)))"

text \<open>Go's \<open>a - b\<close> on float64 is \<open>a + (- b)\<close>, except that a NaN operand is passed on
  as it is.\<close>

definition f64_sub :: "float64 \<Rightarrow> float64 \<Rightarrow> float64" where
  "f64_sub a b =
     (if f64_is_nan a \<or> f64_is_nan b then f64_nan_of a b else f64_add a (f64_neg b))"

subsection \<open>fmt and strings\<close>

text \<open>\<open>fmt.Sprintf("%d", n)\<close>: the decimal digits, with a minus sign for a negative
  number.\<close>

fun decimal :: "nat \<Rightarrow> string" where
  "decimal n =
     (if n < 10 then [''0123456789'' ! n]
      else decimal (n div 10) @ [''0123456789'' ! (n mod 10)])"

declare decimal.simps [simp del]

definition fmt_d :: "int \<Rightarrow> string" where
  "fmt_d i = (if i < 0 then CHR ''-'' # decimal (nat (- i)) else decimal (nat i))"

text \<open>\<open>strings.Join(elems, sep)\<close>.\<close>

fun Join :: "string list \<Rightarrow> string \<Rightarrow> string" where
  "Join [] sep = []"
| "Join [s] sep = s"
| "Join (s # t # ss) sep = s @ sep @ Join (t # ss) sep"

section \<open>The data model\<close>

text \<open>\<open>pq.NullTime\<close>: a timestamp column that may be NULL.\<close>

record NullTime =
  Time :: time
  Valid :: bool

text \<open>\<open>Name\<close>, \<open>Donation\<close> and \<open>Contract\<close> are declared in other files of package
  \<open>db\<close>; the fields below are the ones character.go reads.\<close>

record Name =
  ID :: int32

text \<open>\<open>Affiliation\<close> holds three pointers; \<open>None\<close> is \<open>nil\<close>. The elements of the
  slices the functions are given (affiliations, donations, contracts) are pointers as
  well; those are taken to be set.\<close>

record Affiliation =
  Character :: "Name option"
  Corporation :: "Name option"
  Alliance :: "Name option"

record Contract =
  Donator :: int32
  Receiver :: int32
  Accepted :: bool

record Donation =
  Donator :: int32
  Recipient :: int32
  Amount :: float64
  Timestamp :: time

text \<open>\<open>Character\<close>, the output format of known characters.\<close>

record Character =
  ID :: int32
  Name :: string
  CorporationID :: int32
  CorporationName :: string
  AllianceID :: int32
  AllianceName :: string
  Received :: int64
  ReceivedISK :: float64
  Received30 :: int64
  ReceivedISK30 :: float64
  Donated :: int64
  DonatedISK :: float64
  Donated30 :: int64
  DonatedISK30 :: float64
  LastDonated :: time
  LastReceived :: time
  GoodStanding :: bool

text \<open>\<open>CharacterRow\<close>, a character as stored in the characters table. Its field names
  are the unqualified ones below; those of \<open>Character\<close> are written \<open>Character.ID\<close>
  and so on.\<close>

record CharacterRow =
  ID :: int32
  CorporationID :: int32
  AllianceID :: int32
  Received :: int64
  ReceivedISK :: float64
  Received30 :: int64
  ReceivedISK30 :: float64
  Donated :: int64
  DonatedISK :: float64
  Donated30 :: int64
  DonatedISK30 :: float64
  LastDonated :: NullTime
  LastReceived :: NullTime
  GoodStanding :: bool

text \<open>The zero value \<open>CharacterRow{}\<close>.\<close>

definition zeroCharacterRow :: CharacterRow where
  "zeroCharacterRow =
     \<lparr> ID = 0, CorporationID = 0, AllianceID = 0,
       Received = 0, ReceivedISK = 0, Received30 = 0, ReceivedISK30 = 0,
       Donated = 0, DonatedISK = 0, Donated30 = 0, DonatedISK30 = 0,
       LastDonated = \<lparr> Time = 0, Valid = False \<rparr>,
       LastReceived = \<lparr> Time = 0, Valid = False \<rparr>,
       GoodStanding = False \<rparr>"

section \<open>The total accumulator\<close>

text \<open>
  \<open>addToTotals\<close> walks every row of every list it is given; the body of its inner loop,
  for one row, is \<open>addToTotals_char\<close>. The rows are reached through pointers in the
  source; every pointer in the two lists the callers pass comes from its own call of
  \<open>bindAffiliation\<close>, which allocates the row, so no row is reached twice and the
  lists of rows are returned updated.
\<close>

definition addToTotals_char :: "Donation \<Rightarrow> CharacterRow \<Rightarrow> CharacterRow" where
  "addToTotals_char donation char =
     (if ID char = Donation.Donator donation then
        (let char = char\<lparr> DonatedISK := f64_add (DonatedISK char) (Amount donation) \<rparr>;
             char = char\<lparr> Donated := Donated char + 1 \<rparr>;
             char = char\<lparr> DonatedISK30 := f64_add (DonatedISK30 char) (Amount donation) \<rparr>;
             char = char\<lparr> Donated30 := Donated30 char + 1 \<rparr>
         in if \<not> Valid (LastDonated char)
                \<or> Before (Time (LastDonated char)) (Timestamp donation) then
              (let char = char\<lparr> LastDonated := \<lparr> Time = Timestamp donation, Valid = True \<rparr> \<rparr>
               in char\<lparr> LastDonated := (LastDonated char)\<lparr> Valid := True \<rparr> \<rparr>)
            else char)
      else if ID char = Recipient donation then
        (let char = char\<lparr> ReceivedISK := f64_add (ReceivedISK char) (Amount donation) \<rparr>;
             char = char\<lparr> Received := Received char + 1 \<rparr>;
             char = char\<lparr> ReceivedISK30 := f64_add (ReceivedISK30 char) (Amount donation) \<rparr>;
             char = char\<lparr> Received30 := Received30 char + 1 \<rparr>
         in if \<not> Valid (LastReceived char)
                \<or> Before (Time (LastReceived char)) (Timestamp donation) then
              (let char = char\<lparr> LastReceived := \<lparr> Time = Timestamp donation, Valid = True \<rparr> \<rparr>
               in char\<lparr> LastReceived := (LastReceived char)\<lparr> Valid := True \<rparr> \<rparr>)
            else char)
      else char)"

definition addToTotals :: "Donation \<Rightarrow> CharacterRow list list \<Rightarrow> CharacterRow list list" where
  "addToTotals donation characters = map (map (addToTotals_char donation)) characters"

definition removeFromTotals_char :: "Donation \<Rightarrow> CharacterRow \<Rightarrow> CharacterRow" where
  "removeFromTotals_char donation char =
     (if ID char = Donation.Donator donation then
        (let char = char\<lparr> DonatedISK30 := f64_sub (DonatedISK30 char) (Amount donation) \<rparr>
         in char\<lparr> Donated30 := Donated30 char - 1 \<rparr>)
      else if ID char = Recipient donation then
        (let char = char\<lparr> ReceivedISK30 := f64_sub (ReceivedISK30 char) (Amount donation) \<rparr>
         in char\<lparr> Received30 := Received30 char - 1 \<rparr>)
      else char)"

definition removeFromTotals :: "Donation \<Rightarrow> CharacterRow list list \<Rightarrow> CharacterRow list list" where
  "removeFromTotals donation characters = map (map (removeFromTotals_char donation)) characters"

section \<open>The collaborators outside character.go\<close>

text \<open>
  The statement keys of package \<open>cx\<close> that character.go passes on.
\<close>

datatype Key = StmtCreateCharacter | StmtUpdateCharacter | StmtCharDetails

text \<open>
  character.go calls functions of the repository that are in other files:
  \<open>queryNamedResult\<close>, \<open>scan\<close>, \<open>GetNames\<close> and \<open>executeNamed\<close> (the durable store and
  the name resolver), \<open>round2\<close>, and the contract accumulators \<open>addToContractTotals\<close>
  and \<open>removeFromContractTotals\<close>. They are parameters of the model, gathered in one
  record; every theorem that does not fix them holds for whatever they compute. The
  store is a state \<open>'db\<close>: a read is a function of it, a write returns its error (or none)
  and the next state. \<open>'rows\<close> is the result set (\<open>*sqlx.Rows\<close>) a query returns, before
  it is scanned. \<open>executeNamed\<close> receives the fourteen named arguments \<open>executeChar\<close>
  builds from a row, that is, the row. \<open>GetNames\<close> returns a Go map. Writing to the log
  is not modelled.
\<close>

record ('db, 'rows) env =
  queryNamedResult :: "'db \<Rightarrow> Key \<Rightarrow> int32 \<Rightarrow> error + 'rows"
  scan :: "'rows \<Rightarrow> error + CharacterRow list"
  GetNames :: "'db \<Rightarrow> int32 list \<Rightarrow> error + (int32 \<rightharpoonup> string)"
  executeNamed :: "'db \<Rightarrow> Key \<Rightarrow> CharacterRow \<Rightarrow> error option \<times> 'db"
  round2 :: "float64 \<Rightarrow> float64"
  addToContractTotals :: "Contract \<Rightarrow> CharacterRow list list \<Rightarrow> CharacterRow list list"
  removeFromContractTotals :: "Contract \<Rightarrow> CharacterRow list list \<Rightarrow> CharacterRow list list"

text \<open>Modelled from the spec: \<open>inInt32\<close> is not in character.go; it is the test that
  skips an identity the batch has already bound (every participant appears in exactly
  one of the two sets of rows), that is, membership in the list.\<close>

definition inInt32 :: "int32 \<Rightarrow> int32 list \<Rightarrow> bool" where
  "inInt32 x xs = (x \<in> set xs)"

section \<open>The ledger row model: the two conversions\<close>

definition toCharacter :: "(float64 \<Rightarrow> float64) \<Rightarrow> CharacterRow \<Rightarrow> Character" where
  "toCharacter rnd c =
     (let char = \<lparr> Character.ID = ID c, Character.Name = [],
                   Character.CorporationID = CorporationID c, Character.CorporationName = [],
                   Character.AllianceID = AllianceID c, Character.AllianceName = [],
                   Character.Received = Received c,
                   Character.ReceivedISK = rnd (ReceivedISK c),
                   Character.Received30 = Received30 c,
                   Character.ReceivedISK30 = rnd (ReceivedISK30 c),
                   Character.Donated = Donated c,
                   Character.DonatedISK = rnd (DonatedISK c),
                   Character.Donated30 = Donated30 c,
                   Character.DonatedISK30 = rnd (DonatedISK30 c),
                   Character.LastDonated = 0, Character.LastReceived = 0,
                   Character.GoodStanding = GoodStanding c \<rparr>;
          char = (if Valid (LastDonated c)
                  then char\<lparr> Character.LastDonated := Time (LastDonated c) \<rparr> else char)
      in if Valid (LastReceived c)
         then char\<lparr> Character.LastReceived := Time (LastReceived c) \<rparr> else char)"

definition toRow :: "Character \<Rightarrow> CharacterRow" where
  "toRow c =
     \<lparr> ID = Character.ID c,
       CorporationID = Character.CorporationID c,
       AllianceID = Character.AllianceID c,
       Received = Character.Received c,
       ReceivedISK = Character.ReceivedISK c,
       Received30 = Character.Received30 c,
       ReceivedISK30 = Character.ReceivedISK30 c,
       Donated = Character.Donated c,
       DonatedISK = Character.DonatedISK c,
       Donated30 = Character.Donated30 c,
       DonatedISK30 = Character.DonatedISK30 c,
       LastDonated = \<lparr> Time = Character.LastDonated c,
                       Valid = (\<not> IsZero (Character.LastDonated c)) \<rparr>,
       LastReceived = \<lparr> Time = Character.LastReceived c,
                        Valid = (\<not> IsZero (Character.LastReceived c)) \<rparr>,
       GoodStanding = Character.GoodStanding c \<rparr>"

section \<open>Reading a character\<close>

definition scanCharacterRow :: "('db, 'rows) env \<Rightarrow> 'rows \<Rightarrow> error + CharacterRow" where
  "scanCharacterRow E rows =
     (case scan E rows of
        Inl err \<Rightarrow> Inl err
      | Inr res \<Rightarrow> (case res of i # _ \<Rightarrow> Inr i | [] \<Rightarrow> Inl ''character not found''))"

text \<open>
  \<open>getCharacterNames\<close> asks for the names of the positive ids among the row's three and
  writes each returned name into the first field whose id it matches. The keys of a Go
  map are distinct, so the order in which the loop meets them does not matter: the name
  of the character is the map's entry for its id, that of the corporation the entry for
  the corporation's id unless that id is the character's, and so on.
\<close>

definition getCharacterNames ::
  "('db, 'rows) env \<Rightarrow> 'db \<Rightarrow> CharacterRow \<Rightarrow> error + Character" where
  "getCharacterNames E db row =
     (let ids = filter (\<lambda>id. 0 < sint id) [ID row, CorporationID row, AllianceID row]
      in case GetNames E db ids of
           Inl err \<Rightarrow> Inl err
         | Inr names \<Rightarrow>
             (let char = toCharacter (round2 E) row;
                  cid = Character.ID char;
                  corp = Character.CorporationID char;
                  ally = Character.AllianceID char
              in Inr (char\<lparr>
                   Character.Name :=
                     (case names cid of Some name \<Rightarrow> name | None \<Rightarrow> Character.Name char),
                   Character.CorporationName :=
                     (case names corp of
                        Some name \<Rightarrow> if corp = cid then Character.CorporationName char else name
                      | None \<Rightarrow> Character.CorporationName char),
                   Character.AllianceName :=
                     (case names ally of
                        Some name \<Rightarrow>
                          if ally = cid \<or> ally = corp then Character.AllianceName char else name
                      | None \<Rightarrow> Character.AllianceName char) \<rparr>)))"

definition GetCharacter :: "('db, 'rows) env \<Rightarrow> 'db \<Rightarrow> int32 \<Rightarrow> error + Character" where
  "GetCharacter E db charID =
     (case queryNamedResult E db StmtCharDetails charID of
        Inl err \<Rightarrow> Inl err
      | Inr rows \<Rightarrow>
          (case scanCharacterRow E rows of
             Inl err \<Rightarrow> Inl err
           | Inr charRow \<Rightarrow>
               (case getCharacterNames E db charRow of
                  Inl err \<Rightarrow> Inl err
                | Inr char \<Rightarrow> Inr char)))"

section \<open>The affiliation binder\<close>

fun getAffiliation :: "int32 \<Rightarrow> Affiliation list \<Rightarrow> panic + Affiliation" where
  "getAffiliation charID [] =
     Inl (Panic (''no affiliation found for character '' @ fmt_d (sint charID)))"
| "getAffiliation charID (aff # affiliations) =
     (case Character aff of
        None \<Rightarrow> Inl NilPointerDereference
      | Some name \<Rightarrow>
          if Name.ID name = charID then Inr aff else getAffiliation charID affiliations)"

definition bindAffiliation ::
  "('db, 'rows) env \<Rightarrow> 'db \<Rightarrow> int32 \<Rightarrow> Affiliation list \<Rightarrow> panic + (CharacterRow \<times> bool)" where
  "bindAffiliation E db charID affiliations =
     (case getAffiliation charID affiliations of
        Inl p \<Rightarrow> Inl p
      | Inr aff \<Rightarrow>
          (let (row, new) =
                 (case GetCharacter E db charID of
                    Inl err \<Rightarrow> (zeroCharacterRow\<lparr> ID := charID \<rparr>, True)
                  | Inr char \<Rightarrow> (toRow char, False))
           in case Corporation aff of
                None \<Rightarrow> Inl NilPointerDereference
              | Some corp \<Rightarrow>
                  (let row = row\<lparr> CorporationID := Name.ID corp \<rparr>;
                       row = (case Alliance aff of
                                None \<Rightarrow> row
                              | Some ally \<Rightarrow> row\<lparr> AllianceID := Name.ID ally \<rparr>)
                   in Inr (row, new))))"

section \<open>The batch commit orchestrator\<close>

definition executeChar ::
  "('db, 'rows) env \<Rightarrow> 'db \<Rightarrow> CharacterRow \<Rightarrow> Key \<Rightarrow> error option \<times> 'db" where
  "executeChar E db char key = executeNamed E db key char"

definition NewCharacter :: "('db, 'rows) env \<Rightarrow> 'db \<Rightarrow> CharacterRow \<Rightarrow> error option \<times> 'db" where
  "NewCharacter E db char = executeChar E db char StmtCreateCharacter"

definition updateCharacter :: "('db, 'rows) env \<Rightarrow> 'db \<Rightarrow> CharacterRow \<Rightarrow> error option \<times> 'db" where
  "updateCharacter E db char = executeChar E db char StmtUpdateCharacter"

text \<open>The two loops of \<open>saveCharacters\<close>: each row is written, and the id of a row whose
  write returned an error is appended to \<open>failedChars\<close>.\<close>

fun saveNew ::
  "('db, 'rows) env \<Rightarrow> CharacterRow list \<Rightarrow> string list \<times> 'db \<Rightarrow> string list \<times> 'db" where
  "saveNew E [] (failedChars, db) = (failedChars, db)"
| "saveNew E (char # chars) (failedChars, db) =
     (case NewCharacter E db char of
        (Some err, db') \<Rightarrow> saveNew E chars (failedChars @ [fmt_d (sint (ID char))], db')
      | (None, db') \<Rightarrow> saveNew E chars (failedChars, db'))"

fun saveUpdated ::
  "('db, 'rows) env \<Rightarrow> CharacterRow list \<Rightarrow> string list \<times> 'db \<Rightarrow> string list \<times> 'db" where
  "saveUpdated E [] (failedChars, db) = (failedChars, db)"
| "saveUpdated E (char # chars) (failedChars, db) =
     (case updateCharacter E db char of
        (Some err, db') \<Rightarrow> saveUpdated E chars (failedChars @ [fmt_d (sint (ID char))], db')
      | (None, db') \<Rightarrow> saveUpdated E chars (failedChars, db'))"

definition saveCharacters ::
  "('db, 'rows) env \<Rightarrow> 'db \<Rightarrow> CharacterRow list \<Rightarrow> CharacterRow list \<Rightarrow> error option \<times> 'db" where
  "saveCharacters E db newCharacters updatedCharacters =
     (let (failedChars, db') =
            saveUpdated E updatedCharacters (saveNew E newCharacters ([], db))
      in if 0 < length failedChars
         then (Some (''failed to save character(s): '' @ Join failedChars '', ''), db')
         else (None, db'))"

definition SaveCharacter :: "('db, 'rows) env \<Rightarrow> 'db \<Rightarrow> Character \<Rightarrow> error option \<times> 'db" where
  "SaveCharacter E db char = updateCharacter E db (toRow char)"

section \<open>Applying a batch\<close>

text \<open>
  The state of the batch loop: \<open>newCharacters\<close>, \<open>updatedCharacters\<close> and
  \<open>allCharacters\<close>. \<open>bindAll\<close> is the inner loop over an event's two participants: an
  identity already in \<open>allCharacters\<close> is skipped, any other is bound and its row
  appended to the new or to the updated rows. A panic ends the batch there.
\<close>

type_synonym batch = "CharacterRow list \<times> CharacterRow list \<times> int32 list"

fun bindAll ::
  "('db, 'rows) env \<Rightarrow> 'db \<Rightarrow> Affiliation list \<Rightarrow> int32 list \<Rightarrow> batch \<Rightarrow> panic + batch" where
  "bindAll E db affiliations [] st = Inr st"
| "bindAll E db affiliations (charID # ids) (newCharacters, updatedCharacters, allCharacters) =
     (if inInt32 charID allCharacters
      then bindAll E db affiliations ids (newCharacters, updatedCharacters, allCharacters)
      else (case bindAffiliation E db charID affiliations of
              Inl p \<Rightarrow> Inl p
            | Inr (char, new) \<Rightarrow>
                if new
                then bindAll E db affiliations ids
                       (newCharacters @ [char], updatedCharacters, allCharacters @ [charID])
                else bindAll E db affiliations ids
                       (newCharacters, updatedCharacters @ [char], allCharacters @ [charID])))"

text \<open>The body of the loop over the donations, and the loop. The accumulator updates
  the rows in place; the model reads the two lists it passed back from the result.\<close>

definition donationStep ::
  "('db, 'rows) env \<Rightarrow> 'db \<Rightarrow> Affiliation list \<Rightarrow> bool \<Rightarrow> Donation \<Rightarrow> batch \<Rightarrow> panic + batch" where
  "donationStep E db affiliations addition donation st =
     (case bindAll E db affiliations [Donation.Donator donation, Recipient donation] st of
        Inl p \<Rightarrow> Inl p
      | Inr (newCharacters, updatedCharacters, allCharacters) \<Rightarrow>
          (let characters =
                 (if addition then addToTotals donation [newCharacters, updatedCharacters]
                  else removeFromTotals donation [newCharacters, updatedCharacters])
           in Inr (characters ! 0, characters ! 1, allCharacters)))"

fun donationLoop ::
  "('db, 'rows) env \<Rightarrow> 'db \<Rightarrow> Affiliation list \<Rightarrow> bool \<Rightarrow> Donation list \<Rightarrow> batch \<Rightarrow> panic + batch" where
  "donationLoop E db affiliations addition [] st = Inr st"
| "donationLoop E db affiliations addition (donation # donations) st =
     (case donationStep E db affiliations addition donation st of
        Inl p \<Rightarrow> Inl p
      | Inr st' \<Rightarrow> donationLoop E db affiliations addition donations st')"

definition SaveCharacterDonations ::
  "('db, 'rows) env \<Rightarrow> 'db \<Rightarrow> Donation list \<Rightarrow> Affiliation list \<Rightarrow> bool
     \<Rightarrow> panic + (error option \<times> 'db)" where
  "SaveCharacterDonations E db donations affiliations addition =
     (case donationLoop E db affiliations addition donations ([], [], []) of
        Inl p \<Rightarrow> Inl p
      | Inr (newCharacters, updatedCharacters, allCharacters) \<Rightarrow>
          Inr (saveCharacters E db newCharacters updatedCharacters))"

text \<open>The same for contracts; an unaccepted contract is passed over before anything
  else is done with it.\<close>

definition contractStep ::
  "('db, 'rows) env \<Rightarrow> 'db \<Rightarrow> Affiliation list \<Rightarrow> bool \<Rightarrow> Contract \<Rightarrow> batch \<Rightarrow> panic + batch" where
  "contractStep E db affiliations addition contract st =
     (if \<not> Accepted contract then Inr st
      else (case bindAll E db affiliations [Contract.Donator contract, Receiver contract] st of
              Inl p \<Rightarrow> Inl p
            | Inr (newCharacters, updatedCharacters, allCharacters) \<Rightarrow>
                (let characters =
                       (if addition
                        then addToContractTotals E contract [newCharacters, updatedCharacters]
                        else removeFromContractTotals E contract [newCharacters, updatedCharacters])
                 in Inr (characters ! 0, characters ! 1, allCharacters))))"

fun contractLoop ::
  "('db, 'rows) env \<Rightarrow> 'db \<Rightarrow> Affiliation list \<Rightarrow> bool \<Rightarrow> Contract list \<Rightarrow> batch \<Rightarrow> panic + batch" where
  "contractLoop E db affiliations addition [] st = Inr st"
| "contractLoop E db affiliations addition (contract # contracts) st =
     (case contractStep E db affiliations addition contract st of
        Inl p \<Rightarrow> Inl p
      | Inr st' \<Rightarrow> contractLoop E db affiliations addition contracts st')"

definition SaveCharacterContracts ::
  "('db, 'rows) env \<Rightarrow> 'db \<Rightarrow> Contract list \<Rightarrow> Affiliation list \<Rightarrow> bool
     \<Rightarrow> panic + (error option \<times> 'db)" where
  "SaveCharacterContracts E db donations affiliations addition =
     (case contractLoop E db affiliations addition donations ([], [], []) of
        Inl p \<Rightarrow> Inl p
      | Inr (newCharacters, updatedCharacters, allCharacters) \<Rightarrow>
          Inr (saveCharacters E db newCharacters updatedCharacters))"

section \<open>A description of the commit, and worked data\<close>

text \<open>
  What section 4.4 of the specification asks of the commit, said without the
  \<open>failedChars\<close> accumulator: the writes of a batch are an insert for every new row and
  then an update for every existing row; \<open>commitAll\<close> issues each of them in turn on the
  store the one before left, whatever that one returned, and gives back the rows whose
  write returned an error together with the last store.
\<close>

definition writes :: "CharacterRow list \<Rightarrow> CharacterRow list \<Rightarrow> (Key \<times> CharacterRow) list" where
  "writes newRows existingRows =
     map (Pair StmtCreateCharacter) newRows @ map (Pair StmtUpdateCharacter) existingRows"

fun commitAll ::
  "('db, 'rows) env \<Rightarrow> (Key \<times> CharacterRow) list \<Rightarrow> 'db \<Rightarrow> CharacterRow list \<times> 'db" where
  "commitAll E [] db = ([], db)"
| "commitAll E ((key, row) # ws) db =
     (case executeNamed E db key row of
        (err, db') \<Rightarrow>
          (case commitAll E ws db' of
             (failed, db'') \<Rightarrow> (if err = None then failed else row # failed, db'')))"

text \<open>An identity has no entry in the affiliations when no affiliation there is for
  its id.\<close>

definition noAffiliation :: "int32 \<Rightarrow> Affiliation list \<Rightarrow> bool" where
  "noAffiliation charID affiliations =
     list_all (\<lambda>aff. case Character aff of None \<Rightarrow> True | Some name \<Rightarrow> Name.ID name \<noteq> charID)
       affiliations"

text \<open>
  Modelled from the spec: \<open>round2\<close> is not in character.go. The specification has it
  round a monetary sum to 2 decimal places (12.345 is reported as 12.35): the sum times
  100 is rounded to the nearest integer \<open>n\<close>, a tie away from zero, and the result is
  the float64 nearest to \<open>n / 100\<close>. Infinities and NaNs are returned as they are.
\<close>

definition round2_spec :: "float64 \<Rightarrow> float64" where
  "round2_spec x =
     (if f64_exp x = 2047 then x
      else (let e = f64_scale x;
                n = (if 1075 \<le> e then 100 * f64_mant x * 2 ^ (e - 1075)
                     else (200 * f64_mant x + 2 ^ (1075 - e)) div 2 ^ (1076 - e))
            in if n = 0 then f64_bits (f64_sign x) 0
               else f64_round (f64_sign x) n 100 0))"

text \<open>
  A store for the worked examples: the table is the list of its rows; the query for an
  id returns the rows of that id; a write replaces the row of its id, unless the id is
  one the store refuses, and then returns an error and changes nothing. No name is
  known, and the contract accumulators (not in character.go) leave the rows alone.
\<close>

definition memQuery :: "CharacterRow list \<Rightarrow> Key \<Rightarrow> int32 \<Rightarrow> error + CharacterRow list" where
  "memQuery db key charID = Inr (filter (\<lambda>row. ID row = charID) db)"

definition memExecute ::
  "int32 list \<Rightarrow> CharacterRow list \<Rightarrow> Key \<Rightarrow> CharacterRow \<Rightarrow> error option \<times> CharacterRow list" where
  "memExecute refused db key row =
     (if ID row \<in> set refused then (Some ''write refused'', db)
      else (None, row # filter (\<lambda>r. ID r \<noteq> ID row) db))"

definition memNames :: "CharacterRow list \<Rightarrow> int32 list \<Rightarrow> error + (int32 \<rightharpoonup> string)" where
  "memNames db ids = Inr Map.empty"

definition keepTotals :: "Contract \<Rightarrow> CharacterRow list list \<Rightarrow> CharacterRow list list" where
  "keepTotals contract characters = characters"

definition memEnv :: "int32 list \<Rightarrow> (CharacterRow list, CharacterRow list) env" where
  "memEnv refused =
     \<lparr> queryNamedResult = memQuery, scan = Inr, GetNames = memNames,
       executeNamed = memExecute refused, round2 = round2_spec,
       addToContractTotals = keepTotals, removeFromContractTotals = keepTotals \<rparr>"

text \<open>The same store when it cannot be reached: every query fails.\<close>

definition downQuery :: "CharacterRow list \<Rightarrow> Key \<Rightarrow> int32 \<Rightarrow> error + CharacterRow list" where
  "downQuery db key charID = Inl ''connection refused''"

definition downEnv :: "(CharacterRow list, CharacterRow list) env" where
  "downEnv = (memEnv [])\<lparr> queryNamedResult := downQuery \<rparr>"

text \<open>The affiliation of a character with a corporation and no alliance, and a donation.\<close>

definition affiliated :: "int32 \<Rightarrow> int32 \<Rightarrow> Affiliation" where
  "affiliated charID corpID =
     \<lparr> Character = Some \<lparr> Name.ID = charID \<rparr>, Corporation = Some \<lparr> Name.ID = corpID \<rparr>,
       Alliance = None \<rparr>"

definition donated :: "int32 \<Rightarrow> int32 \<Rightarrow> float64 \<Rightarrow> time \<Rightarrow> Donation" where
  "donated donator recipient amount timestamp =
     \<lparr> Donation.Donator = donator, Recipient = recipient, Amount = amount,
       Timestamp = timestamp \<rparr>"

text \<open>The rows the specification's scenario expects: a new donator of a corporation
  after its first donation, and a new recipient after its first receipt.\<close>

definition firstDonation :: "int32 \<Rightarrow> int32 \<Rightarrow> float64 \<Rightarrow> time \<Rightarrow> CharacterRow" where
  "firstDonation charID corpID amount timestamp =
     zeroCharacterRow\<lparr> ID := charID, CorporationID := corpID,
       Donated := 1, DonatedISK := amount, Donated30 := 1, DonatedISK30 := amount,
       LastDonated := \<lparr> Time = timestamp, Valid = True \<rparr> \<rparr>"

definition firstReceipt :: "int32 \<Rightarrow> int32 \<Rightarrow> float64 \<Rightarrow> time \<Rightarrow> CharacterRow" where
  "firstReceipt charID corpID amount timestamp =
     zeroCharacterRow\<lparr> ID := charID, CorporationID := corpID,
       Received := 1, ReceivedISK := amount, Received30 := 1, ReceivedISK30 := amount,
       LastReceived := \<lparr> Time = timestamp, Valid = True \<rparr> \<rparr>"

text \<open>A stored row of the character 100: 3 donations, worth 12.345
  (\<open>0x4028B0A3D70A3D71\<close>) in all.\<close>

definition storedDonator :: CharacterRow where
  "storedDonator =
     zeroCharacterRow\<lparr> ID := 100, Donated := 3, DonatedISK := 0x4028B0A3D70A3D71 \<rparr>"

section \<open>Evaluating float64 operations\<close>

text \<open>The equations that compute a float64 operation on bit patterns given as
  numerals; used with the weak congruence rule for \<open>let\<close>, so that a bound value is
  computed before it is substituted.\<close>

lemmas f64_eval =
  f64_add_def f64_sub_def f64_neg_def f64_is_nan_def f64_is_inf_def f64_nan_of_def
  f64_quiet_def f64_signed_def f64_round_def round_half_even_def f64_bits_def
  f64_mant_def f64_scale_def f64_exp_def f64_frac_def f64_sign_def bitlen.simps

text \<open>Some sums of the model: \<open>1 + 1 = 2\<close>; a tie goes to the even neighbour
  (\<open>2^53 + 1 = 2^53\<close>, \<open>2^53 + 3 = 2^53 + 4\<close>); the largest finite number added to
  itself overflows to the infinity; two subnormals add exactly; \<open>1 - 1 = +0\<close>.\<close>

lemma f64_add_examples:
  "f64_add 0x3FF0000000000000 0x3FF0000000000000 = 0x4000000000000000"
  "f64_add 0x4340000000000000 0x3FF0000000000000 = 0x4340000000000000"
  "f64_add 0x4340000000000000 0x4008000000000000 = 0x4340000000000002"
  "f64_add 0x7FEFFFFFFFFFFFFF 0x7FEFFFFFFFFFFFFF = 0x7FF0000000000000"
  "f64_add 1 1 = 2"
  "f64_sub 0x3FF0000000000000 0x3FF0000000000000 = 0"
  by (simp_all add: f64_eval cong: let_weak_cong)

text \<open>The textbook sum: \<open>0.1 + 0.2\<close> is \<open>0.30000000000000004\<close>, and taking \<open>0.2\<close> away
  again leaves \<open>0.10000000000000003\<close>.\<close>

lemma f64_add_tenth_fifth: "f64_add 0x3FB999999999999A 0x3FC999999999999A = 0x3FD3333333333334"
  by (simp add: f64_eval cong: let_weak_cong)

lemma f64_sub_sum_fifth: "f64_sub 0x3FD3333333333334 0x3FC999999999999A = 0x3FB999999999999C"
  by (simp add: f64_eval cong: let_weak_cong)

section \<open>Subtractive application\<close>

text \<open>
  Claim C3. Subtractive application of a donation changes, in every row it is given, at
  most the four 30-day fields: the lifetime totals \<open>Donated\<close>, \<open>DonatedISK\<close>,
  \<open>Received\<close>, \<open>ReceivedISK\<close>, both last-timestamps and every other field of the row
  are as before. The donator's row has \<open>Donated30\<close> decremented by 1 and \<open>DonatedISK30\<close>
  by the amount (a float64 subtraction); any other row with the recipient's id has
  \<open>Received30\<close> and \<open>ReceivedISK30\<close> decremented likewise.
\<close>

theorem removeFromTotals_frame:
  "list_all2 (list_all2 (\<lambda>char char'.
      Donated char' = Donated char \<and> DonatedISK char' = DonatedISK char
    \<and> Received char' = Received char \<and> ReceivedISK char' = ReceivedISK char
    \<and> LastDonated char' = LastDonated char \<and> LastReceived char' = LastReceived char
    \<and> char' = char\<lparr> Donated30 := Donated30 char', DonatedISK30 := DonatedISK30 char',
                     Received30 := Received30 char', ReceivedISK30 := ReceivedISK30 char' \<rparr>
    \<and> Donated30 char' =
        (if ID char = Donation.Donator donation then Donated30 char - 1 else Donated30 char)
    \<and> DonatedISK30 char' =
        (if ID char = Donation.Donator donation
         then f64_sub (DonatedISK30 char) (Amount donation) else DonatedISK30 char)
    \<and> Received30 char' =
        (if ID char \<noteq> Donation.Donator donation \<and> ID char = Recipient donation
         then Received30 char - 1 else Received30 char)
    \<and> ReceivedISK30 char' =
        (if ID char \<noteq> Donation.Donator donation \<and> ID char = Recipient donation
         then f64_sub (ReceivedISK30 char) (Amount donation) else ReceivedISK30 char)))
     characters (removeFromTotals donation characters)"
  unfolding removeFromTotals_def list_all2_map2
  by (intro list_all2_refl) (simp add: removeFromTotals_char_def Let_def)

text \<open>Claim C3, at a donator's row with 7 lifetime donations, 3 of them in the window:
  the window count drops to 2, the lifetime count stays 7.\<close>

theorem removeFromTotals_frame_witness:
  "Donated30 (hd (hd (removeFromTotals (donated 100 200 5 1)
      [[zeroCharacterRow\<lparr> ID := 100, Donated := 7, Donated30 := 3 \<rparr>]]))) = 2
   \<and> Donated (hd (hd (removeFromTotals (donated 100 200 5 1)
      [[zeroCharacterRow\<lparr> ID := 100, Donated := 7, Donated30 := 3 \<rparr>]]))) = 7"
  using removeFromTotals_frame [of "donated 100 200 5 1"
      "[[zeroCharacterRow\<lparr> ID := 100, Donated := 7, Donated30 := 3 \<rparr>]]"]
  by (simp add: removeFromTotals_def donated_def zeroCharacterRow_def)

section \<open>Additive then subtractive application\<close>

text \<open>
  Claim C2, as stated, fails on the value fields: they are float64 sums, and
  \<open>(v + a) - a\<close> need not be \<open>v\<close>. A donator's row whose \<open>DonatedISK30\<close> is 0.1 (bit
  pattern \<open>0x3FB999999999999A\<close>), after a donation of 0.2 is applied additively and then
  subtractively, has \<open>DonatedISK30 = 0.10000000000000003\<close> (\<open>0x3FB999999999999C\<close>).
\<close>

theorem add_then_remove_counterexample:
  "DonatedISK30 (hd (hd (removeFromTotals (donated 100 200 0x3FC999999999999A 1)
      (addToTotals (donated 100 200 0x3FC999999999999A 1)
         [[zeroCharacterRow\<lparr> ID := 100, DonatedISK30 := 0x3FB999999999999A \<rparr>]]))))
     = 0x3FB999999999999C
   \<and> DonatedISK30 (zeroCharacterRow\<lparr> ID := 100, DonatedISK30 := 0x3FB999999999999A \<rparr>)
     = 0x3FB999999999999A"
  by (simp add: removeFromTotals_def addToTotals_def removeFromTotals_char_def
      addToTotals_char_def donated_def zeroCharacterRow_def Let_def
      f64_add_tenth_fifth f64_sub_sum_fifth)

text \<open>
  Claim C2, amended. For any donation and any rows, additive and then subtractive
  application leaves the two 30-day counts \<open>Donated30\<close> and \<open>Received30\<close> of every row
  exactly as they were (the int64 increment and decrement cancel, also where they wrap
  around). The 30-day value field of a matching row ends as \<open>(v + amount) - amount\<close> in
  float64 arithmetic, which is the starting \<open>v\<close> only when neither operation rounds.
  The lifetime fields show the additive half alone.
\<close>

theorem add_then_remove:
  "list_all2 (list_all2 (\<lambda>char char'.
      Donated30 char' = Donated30 char \<and> Received30 char' = Received30 char
    \<and> DonatedISK30 char' =
        (if ID char = Donation.Donator donation
         then f64_sub (f64_add (DonatedISK30 char) (Amount donation)) (Amount donation)
         else DonatedISK30 char)
    \<and> ReceivedISK30 char' =
        (if ID char \<noteq> Donation.Donator donation \<and> ID char = Recipient donation
         then f64_sub (f64_add (ReceivedISK30 char) (Amount donation)) (Amount donation)
         else ReceivedISK30 char)
    \<and> Donated char' =
        (if ID char = Donation.Donator donation then Donated char + 1 else Donated char)
    \<and> DonatedISK char' =
        (if ID char = Donation.Donator donation
         then f64_add (DonatedISK char) (Amount donation) else DonatedISK char)
    \<and> Received char' =
        (if ID char \<noteq> Donation.Donator donation \<and> ID char = Recipient donation
         then Received char + 1 else Received char)
    \<and> ReceivedISK char' =
        (if ID char \<noteq> Donation.Donator donation \<and> ID char = Recipient donation
         then f64_add (ReceivedISK char) (Amount donation) else ReceivedISK char)))
     characters (removeFromTotals donation (addToTotals donation characters))"
  unfolding removeFromTotals_def addToTotals_def list_all2_map2 map_map comp_def
  by (intro list_all2_refl) (simp add: removeFromTotals_char_def addToTotals_char_def Let_def)

text \<open>Claim C2, amended, at a donator's row with 7 lifetime donations, 3 of them in
  the window: the window count is 3 again, the lifetime count is 8.\<close>

theorem add_then_remove_witness:
  "Donated30 (hd (hd (removeFromTotals (donated 100 200 5 1) (addToTotals (donated 100 200 5 1)
      [[zeroCharacterRow\<lparr> ID := 100, Donated := 7, Donated30 := 3 \<rparr>]])))) = 3
   \<and> Donated (hd (hd (removeFromTotals (donated 100 200 5 1) (addToTotals (donated 100 200 5 1)
      [[zeroCharacterRow\<lparr> ID := 100, Donated := 7, Donated30 := 3 \<rparr>]])))) = 8"
  using add_then_remove [of "donated 100 200 5 1"
      "[[zeroCharacterRow\<lparr> ID := 100, Donated := 7, Donated30 := 3 \<rparr>]]"]
  by (simp add: removeFromTotals_def addToTotals_def donated_def zeroCharacterRow_def)

section \<open>The last-donated timestamp\<close>

text \<open>
  Claim C7, as stated, fails for a row that already holds a later timestamp: the guard
  of \<open>addToTotals\<close> only ever moves \<open>LastDonated\<close> forward. A donator's row with
  \<open>LastDonated = 10\<close>, after donations with the timestamps 1 and 2 are applied
  additively in either order, still has \<open>LastDonated = 10\<close>, not 2.
\<close>

theorem lastDonated_counterexample:
  "LastDonated (hd (hd (addToTotals (donated 100 200 0 2) (addToTotals (donated 100 200 0 1)
      [[zeroCharacterRow\<lparr> ID := 100, LastDonated := \<lparr> Time = 10, Valid = True \<rparr> \<rparr>]]))))
     = \<lparr> Time = 10, Valid = True \<rparr>
   \<and> LastDonated (hd (hd (addToTotals (donated 100 200 0 1) (addToTotals (donated 100 200 0 2)
      [[zeroCharacterRow\<lparr> ID := 100, LastDonated := \<lparr> Time = 10, Valid = True \<rparr> \<rparr>]]))))
     = \<lparr> Time = 10, Valid = True \<rparr>"
  by (simp add: addToTotals_def addToTotals_char_def donated_def zeroCharacterRow_def Let_def
      Before_def)

text \<open>Two additive applications to one donator's row, in either order.\<close>

lemma lastDonated_two:
  assumes "Timestamp d1 < Timestamp d2" and "Donation.Donator d1 = Donation.Donator d2"
    and "ID char = Donation.Donator d1"
  shows "LastDonated (addToTotals_char d2 (addToTotals_char d1 char)) =
           (if Valid (LastDonated char) \<and> Timestamp d2 < Time (LastDonated char)
            then LastDonated char else \<lparr> Time = Timestamp d2, Valid = True \<rparr>)"
    and "LastDonated (addToTotals_char d1 (addToTotals_char d2 char)) =
           (if Valid (LastDonated char) \<and> Timestamp d2 < Time (LastDonated char)
            then LastDonated char else \<lparr> Time = Timestamp d2, Valid = True \<rparr>)"
  using assms by (auto simp: addToTotals_char_def Let_def Before_def)

text \<open>
  Claim C7, amended. Two donations of one donator with the timestamps \<open>T1 < T2\<close>,
  applied additively in either order, leave in every row of that donator
  \<open>LastDonated = T2\<close>, provided the row's \<open>LastDonated\<close> was absent or not after \<open>T2\<close>
  before; a row that held a timestamp after \<open>T2\<close> keeps it.
\<close>

theorem lastDonated_latest:
  assumes "Timestamp d1 < Timestamp d2" and "Donation.Donator d1 = Donation.Donator d2"
  shows "list_all2 (list_all2 (\<lambda>char char'. ID char = Donation.Donator d1 \<longrightarrow>
            LastDonated char' =
              (if Valid (LastDonated char) \<and> Timestamp d2 < Time (LastDonated char)
               then LastDonated char else \<lparr> Time = Timestamp d2, Valid = True \<rparr>)))
           characters (addToTotals d2 (addToTotals d1 characters))
       \<and> list_all2 (list_all2 (\<lambda>char char'. ID char = Donation.Donator d1 \<longrightarrow>
            LastDonated char' =
              (if Valid (LastDonated char) \<and> Timestamp d2 < Time (LastDonated char)
               then LastDonated char else \<lparr> Time = Timestamp d2, Valid = True \<rparr>)))
           characters (addToTotals d1 (addToTotals d2 characters))"
  unfolding addToTotals_def list_all2_map2 map_map comp_def
  using assms by (auto intro!: list_all2_refl simp: lastDonated_two)

text \<open>Claim C7, amended, at a fresh row of the donator 100 and the timestamps 1 and 2.\<close>

theorem lastDonated_latest_witness:
  "Timestamp (donated 100 200 0 1) < Timestamp (donated 100 300 0 2)
   \<and> Donation.Donator (donated 100 200 0 1) = Donation.Donator (donated 100 300 0 2)
   \<and> LastDonated (hd (hd (addToTotals (donated 100 300 0 2) (addToTotals (donated 100 200 0 1)
        [[zeroCharacterRow\<lparr> ID := 100 \<rparr>]])))) = \<lparr> Time = 2, Valid = True \<rparr>
   \<and> LastDonated (hd (hd (addToTotals (donated 100 200 0 1) (addToTotals (donated 100 300 0 2)
        [[zeroCharacterRow\<lparr> ID := 100 \<rparr>]])))) = \<lparr> Time = 2, Valid = True \<rparr>"
proof -
  have t: "Timestamp (donated 100 200 0 1) < Timestamp (donated 100 300 0 2)"
    and d: "Donation.Donator (donated 100 200 0 1) = Donation.Donator (donated 100 300 0 2)"
    by (simp_all add: donated_def)
  show ?thesis
    using t d lastDonated_latest [OF t d, of "[[zeroCharacterRow\<lparr> ID := 100 \<rparr>]]"]
    by (simp add: addToTotals_def donated_def zeroCharacterRow_def)
qed

section \<open>A donation to oneself\<close>

text \<open>
  Claim C9. When the donator of a donation is also its recipient, additive application
  leaves the received side of every row (\<open>Received\<close>, \<open>ReceivedISK\<close>, \<open>Received30\<close>,
  \<open>ReceivedISK30\<close>, \<open>LastReceived\<close>) as it was: a row of that identity gets the donated
  side updated (the test for the donator comes first and excludes the other), any other
  row is unchanged. The batch loop binds one row for the two participants, the second
  being skipped as already bound.
\<close>

theorem self_donation_one_sided:
  assumes "Recipient donation = Donation.Donator donation"
  shows "list_all2 (list_all2 (\<lambda>char char'.
            Received char' = Received char \<and> ReceivedISK char' = ReceivedISK char
          \<and> Received30 char' = Received30 char \<and> ReceivedISK30 char' = ReceivedISK30 char
          \<and> LastReceived char' = LastReceived char
          \<and> (ID char = Donation.Donator donation \<longrightarrow>
                Donated char' = Donated char + 1
              \<and> DonatedISK char' = f64_add (DonatedISK char) (Amount donation)
              \<and> Donated30 char' = Donated30 char + 1
              \<and> DonatedISK30 char' = f64_add (DonatedISK30 char) (Amount donation)
              \<and> LastDonated char' =
                  (if Valid (LastDonated char)
                      \<and> \<not> Time (LastDonated char) < Timestamp donation
                   then LastDonated char else \<lparr> Time = Timestamp donation, Valid = True \<rparr>))
          \<and> (ID char \<noteq> Donation.Donator donation \<longrightarrow> char' = char)))
           characters (addToTotals donation characters)
       \<and> bindAll E db affiliations [Donation.Donator donation, Recipient donation] ([], [], []) =
           (case bindAffiliation E db (Donation.Donator donation) affiliations of
              Inl p \<Rightarrow> Inl p
            | Inr (char, new) \<Rightarrow>
                Inr (if new then [char] else [], if new then [] else [char],
                     [Donation.Donator donation]))"
    (is "?rows \<and> ?bound")
proof
  show ?rows
    unfolding addToTotals_def list_all2_map2
    using assms by (intro list_all2_refl) (simp add: addToTotals_char_def Let_def Before_def)
next
  show ?bound
    using assms by (simp add: inInt32_def split: sum.splits prod.splits)
qed

text \<open>A character the example store has no row for is not found.\<close>

lemma GetCharacter_memEnv_absent:
  "\<not> (\<exists>row \<in> set db. ID row = charID) \<Longrightarrow>
   GetCharacter (memEnv refused) db charID = Inl ''character not found''"
  by (simp add: GetCharacter_def memEnv_def memQuery_def scanCharacterRow_def filter_empty_conv)

text \<open>Claim C9, at the donation of 100 to itself: the fresh row has one donation and
  no receipt, and it is the only row bound.\<close>

theorem self_donation_one_sided_witness:
  "Recipient (donated 100 100 5 1) = Donation.Donator (donated 100 100 5 1)
   \<and> Received (hd (hd (addToTotals (donated 100 100 5 1) [[zeroCharacterRow\<lparr> ID := 100 \<rparr>]]))) = 0
   \<and> Donated (hd (hd (addToTotals (donated 100 100 5 1) [[zeroCharacterRow\<lparr> ID := 100 \<rparr>]]))) = 1
   \<and> bindAll (memEnv []) [] [affiliated 100 10]
        [Donation.Donator (donated 100 100 5 1), Recipient (donated 100 100 5 1)] ([], [], []) =
       Inr ([zeroCharacterRow\<lparr> ID := 100, CorporationID := 10 \<rparr>], [], [100])"
proof -
  have h: "Recipient (donated 100 100 5 1) = Donation.Donator (donated 100 100 5 1)"
    by (simp add: donated_def)
  have b: "bindAffiliation (memEnv []) [] 100 [affiliated 100 10]
             = Inr (zeroCharacterRow\<lparr> ID := 100, CorporationID := 10 \<rparr>, True)"
    by (simp add: bindAffiliation_def affiliated_def GetCharacter_memEnv_absent)
  have d: "Donation.Donator (donated 100 100 5 1) = 100"
    by (simp add: donated_def)
  show ?thesis
    using h self_donation_one_sided [OF h, of "[[zeroCharacterRow\<lparr> ID := 100 \<rparr>]]"
        "memEnv []" "[]" "[affiliated 100 10]"]
    unfolding d b
    by (simp add: addToTotals_def zeroCharacterRow_def)
qed

section \<open>A failed load\<close>

text \<open>
  Claim C10. Whenever \<open>GetCharacter\<close> returns an error, whatever the error, the binder
  returns a fresh row (zero but for the id and the affiliation's corporation and
  alliance) and reports it as new, so that the batch loop appends it to the new rows,
  those that are inserted. \<open>GetCharacter\<close> returns an error not only when the query
  finds no row, but also when the query itself, the scan or the name lookup fails.
\<close>

theorem load_failure_binds_new:
  assumes "getAffiliation charID affiliations = Inr aff" and "Corporation aff = Some corp"
  shows "(GetCharacter E db charID = Inl err \<longrightarrow>
            bindAffiliation E db charID affiliations =
              Inr (zeroCharacterRow\<lparr> ID := charID, CorporationID := Name.ID corp,
                     AllianceID := (case Alliance aff of None \<Rightarrow> 0 | Some ally \<Rightarrow> Name.ID ally) \<rparr>,
                   True)
          \<and> bindAll E db affiliations [charID] ([], [], []) =
              Inr ([zeroCharacterRow\<lparr> ID := charID, CorporationID := Name.ID corp,
                      AllianceID := (case Alliance aff of None \<Rightarrow> 0 | Some ally \<Rightarrow> Name.ID ally) \<rparr>],
                   [], [charID]))
       \<and> (queryNamedResult E db StmtCharDetails charID = Inl err \<longrightarrow>
            GetCharacter E db charID = Inl err)
       \<and> (queryNamedResult E db StmtCharDetails charID = Inr rows \<and> scan E rows = Inl err \<longrightarrow>
            GetCharacter E db charID = Inl err)
       \<and> (queryNamedResult E db StmtCharDetails charID = Inr rows \<and> scan E rows = Inr [] \<longrightarrow>
            GetCharacter E db charID = Inl ''character not found'')
       \<and> (queryNamedResult E db StmtCharDetails charID = Inr rows
            \<and> scan E rows = Inr (row # rest)
            \<and> GetNames E db (filter (\<lambda>id. 0 < sint id) [ID row, CorporationID row, AllianceID row])
                = Inl err \<longrightarrow>
            GetCharacter E db charID = Inl err)"
  using assms
  by (auto simp: bindAffiliation_def GetCharacter_def scanCharacterRow_def getCharacterNames_def
      inInt32_def zeroCharacterRow_def split: option.splits)

text \<open>Claim C10, at a store that cannot be reached and holds a row of 5 donations for
  the character 100: the character is bound as new, with a zeroed row.\<close>

theorem load_failure_binds_new_witness:
  "getAffiliation 100 [affiliated 100 10] = Inr (affiliated 100 10)
   \<and> Corporation (affiliated 100 10) = Some \<lparr> Name.ID = 10 \<rparr>
   \<and> GetCharacter downEnv [zeroCharacterRow\<lparr> ID := 100, Donated := 5 \<rparr>] 100
       = Inl ''connection refused''
   \<and> bindAffiliation downEnv [zeroCharacterRow\<lparr> ID := 100, Donated := 5 \<rparr>] 100
        [affiliated 100 10]
       = Inr (zeroCharacterRow\<lparr> ID := 100, CorporationID := 10 \<rparr>, True)"
proof -
  have a: "getAffiliation 100 [affiliated 100 10] = Inr (affiliated 100 10)"
    and c: "Corporation (affiliated 100 10) = Some \<lparr> Name.ID = 10 \<rparr>"
    by (simp_all add: affiliated_def)
  have q: "queryNamedResult downEnv [zeroCharacterRow\<lparr> ID := 100, Donated := 5 \<rparr>]
             StmtCharDetails 100 = Inl ''connection refused''"
    by (simp add: downEnv_def downQuery_def)
  show ?thesis
    using a c q load_failure_binds_new [OF a c, of downEnv
        "[zeroCharacterRow\<lparr> ID := 100, Donated := 5 \<rparr>]" "''connection refused''"]
    by (simp add: affiliated_def zeroCharacterRow_def)
qed

section \<open>The scenario of a single donation\<close>

lemma f64_add_zero_500: "f64_add 0 0x407F400000000000 = 0x407F400000000000"
  by (simp add: f64_eval cong: let_weak_cong)

text \<open>
  Claim C8. A batch of the one donation of 500.0 (\<open>0x407F400000000000\<close>) from 100 to
  200 at the time \<open>T\<close>, with neither identity loaded from the store, the affiliations
  100 to corporation 10 and 200 to corporation 20 without alliances, and a store that
  accepts the two inserts: additive processing creates the two new rows and no updated
  row. The row of 100 has \<open>Donated = 1\<close>, \<open>DonatedISK = 500.0\<close>, \<open>Donated30 = 1\<close>,
  \<open>DonatedISK30 = 500.0\<close> and \<open>LastDonated = T\<close>; the row of 200 has the same on the
  received side; the commit returns no error.
\<close>

theorem single_donation_scenario:
  assumes "GetCharacter E db 100 = Inl e1" and "GetCharacter E db 200 = Inl e2"
    and "executeNamed E db StmtCreateCharacter (firstDonation 100 10 0x407F400000000000 T)
           = (None, db1)"
    and "executeNamed E db1 StmtCreateCharacter (firstReceipt 200 20 0x407F400000000000 T)
           = (None, db2)"
  shows "donationLoop E db [affiliated 100 10, affiliated 200 20] True
           [donated 100 200 0x407F400000000000 T] ([], [], [])
         = Inr ([firstDonation 100 10 0x407F400000000000 T,
                 firstReceipt 200 20 0x407F400000000000 T], [], [100, 200])
       \<and> SaveCharacterDonations E db [donated 100 200 0x407F400000000000 T]
           [affiliated 100 10, affiliated 200 20] True
         = Inr (None, db2)"
proof -
  have b1: "bindAffiliation E db 100 [affiliated 100 10, affiliated 200 20]
             = Inr (zeroCharacterRow\<lparr> ID := 100, CorporationID := 10 \<rparr>, True)"
    using assms(1) by (simp add: bindAffiliation_def affiliated_def)
  have b2: "bindAffiliation E db 200 [affiliated 100 10, affiliated 200 20]
             = Inr (zeroCharacterRow\<lparr> ID := 200, CorporationID := 20 \<rparr>, True)"
    using assms(2) by (simp add: bindAffiliation_def affiliated_def)
  have loop: "donationLoop E db [affiliated 100 10, affiliated 200 20] True
           [donated 100 200 0x407F400000000000 T] ([], [], [])
         = Inr ([firstDonation 100 10 0x407F400000000000 T,
                 firstReceipt 200 20 0x407F400000000000 T], [], [100, 200])"
    by (simp add: donationStep_def donated_def inInt32_def b1 b2 addToTotals_def
        addToTotals_char_def Let_def zeroCharacterRow_def firstDonation_def firstReceipt_def
        f64_add_zero_500)
  have save: "saveCharacters E db [firstDonation 100 10 0x407F400000000000 T,
                 firstReceipt 200 20 0x407F400000000000 T] [] = (None, db2)"
    using assms(3,4)
    by (simp add: saveCharacters_def NewCharacter_def executeChar_def)
  show ?thesis
    unfolding SaveCharacterDonations_def loop by (simp add: save)
qed

text \<open>Claim C8, on the empty example store at the time 7.\<close>

theorem single_donation_scenario_witness:
  "GetCharacter (memEnv []) [] 100 = Inl ''character not found''
   \<and> GetCharacter (memEnv []) [] 200 = Inl ''character not found''
   \<and> executeNamed (memEnv []) [] StmtCreateCharacter (firstDonation 100 10 0x407F400000000000 7)
       = (None, [firstDonation 100 10 0x407F400000000000 7])
   \<and> executeNamed (memEnv []) [firstDonation 100 10 0x407F400000000000 7] StmtCreateCharacter
         (firstReceipt 200 20 0x407F400000000000 7)
       = (None, [firstReceipt 200 20 0x407F400000000000 7,
                 firstDonation 100 10 0x407F400000000000 7])
   \<and> SaveCharacterDonations (memEnv []) [] [donated 100 200 0x407F400000000000 7]
         [affiliated 100 10, affiliated 200 20] True
       = Inr (None, [firstReceipt 200 20 0x407F400000000000 7,
                     firstDonation 100 10 0x407F400000000000 7])"
proof -
  have g1: "GetCharacter (memEnv []) [] 100 = Inl ''character not found''"
    and g2: "GetCharacter (memEnv []) [] 200 = Inl ''character not found''"
    by (simp_all add: GetCharacter_memEnv_absent)
  have w1: "executeNamed (memEnv []) [] StmtCreateCharacter
              (firstDonation 100 10 0x407F400000000000 7)
            = (None, [firstDonation 100 10 0x407F400000000000 7])"
    by (simp add: memEnv_def memExecute_def)
  have w2: "executeNamed (memEnv []) [firstDonation 100 10 0x407F400000000000 7]
              StmtCreateCharacter (firstReceipt 200 20 0x407F400000000000 7)
            = (None, [firstReceipt 200 20 0x407F400000000000 7,
                      firstDonation 100 10 0x407F400000000000 7])"
    by (simp add: memEnv_def memExecute_def firstDonation_def firstReceipt_def
        zeroCharacterRow_def)
  show ?thesis
    using g1 g2 w1 w2 single_donation_scenario [OF g1 g2 w1 w2] by (simp only: simp_thms)
qed

section \<open>The commit\<close>

lemma commitAll_append:
  "commitAll E (ws @ vs) db =
     (case commitAll E ws db of
        (failed, db') \<Rightarrow>
          (case commitAll E vs db' of (failed', db'') \<Rightarrow> (failed @ failed', db'')))"
  by (induction ws arbitrary: db) (auto split: prod.splits)

lemma saveNew_commitAll:
  "saveNew E chars (failedChars, db) =
     (case commitAll E (map (Pair StmtCreateCharacter) chars) db of
        (failed, db') \<Rightarrow> (failedChars @ map (\<lambda>row. fmt_d (sint (ID row))) failed, db'))"
  by (induction chars arbitrary: failedChars db)
     (auto simp: NewCharacter_def executeChar_def split: prod.splits option.splits)

lemma saveUpdated_commitAll:
  "saveUpdated E chars (failedChars, db) =
     (case commitAll E (map (Pair StmtUpdateCharacter) chars) db of
        (failed, db') \<Rightarrow> (failedChars @ map (\<lambda>row. fmt_d (sint (ID row))) failed, db'))"
  by (induction chars arbitrary: failedChars db)
     (auto simp: updateCharacter_def executeChar_def split: prod.splits option.splits)

text \<open>
  Claim C5. \<open>saveCharacters\<close> issues an insert for every new row and then an update
  for every existing row, each whatever the writes before it returned, and ends in the
  store the last write left (no write is undone). It returns no error when no write
  returned one; otherwise it returns the single error whose message lists, after
  \<open>failed to save character(s):\<close>, the ids of exactly the rows whose write returned an
  error, in the order of the writes.
\<close>

theorem saveCharacters_best_effort:
  "saveCharacters E db newCharacters updatedCharacters =
     (case commitAll E (writes newCharacters updatedCharacters) db of
        (failed, db') \<Rightarrow>
          (if failed = [] then None
           else Some (''failed to save character(s): ''
                      @ Join (map (\<lambda>row. fmt_d (sint (ID row))) failed) '', ''),
           db'))"
  by (auto simp: saveCharacters_def writes_def commitAll_append saveNew_commitAll
      saveUpdated_commitAll split: prod.splits)

lemma decimal_7: "decimal 7 = ''7''" and decimal_9: "decimal 9 = ''9''"
  by (simp_all add: decimal.simps)

text \<open>Claim C5, at a store that refuses the ids 7 and 9: of the new rows 7 and 8 and
  the existing row 9, the row 8 is stored and the error names 7 and 9.\<close>

theorem saveCharacters_best_effort_witness:
  "saveCharacters (memEnv [7, 9]) []
      [zeroCharacterRow\<lparr> ID := 7 \<rparr>, zeroCharacterRow\<lparr> ID := 8 \<rparr>] [zeroCharacterRow\<lparr> ID := 9 \<rparr>]
   = (Some ''failed to save character(s): 7, 9'', [zeroCharacterRow\<lparr> ID := 8 \<rparr>])"
  using saveCharacters_best_effort [of "memEnv [7, 9]" "[]"
      "[zeroCharacterRow\<lparr> ID := 7 \<rparr>, zeroCharacterRow\<lparr> ID := 8 \<rparr>]" "[zeroCharacterRow\<lparr> ID := 9 \<rparr>]"]
  by (simp add: writes_def memEnv_def memExecute_def zeroCharacterRow_def fmt_d_def
      decimal_7 decimal_9)

section \<open>Unaccepted contracts\<close>

lemma contractStep_unaccepted:
  "\<not> Accepted contract \<Longrightarrow> contractStep E db affiliations addition contract st = Inr st"
  by (simp add: contractStep_def)

lemma contractLoop_filter:
  "contractLoop E db affiliations addition contracts st =
   contractLoop E db affiliations addition (filter Accepted contracts) st"
  by (induction contracts arbitrary: st) (auto simp: contractStep_unaccepted split: sum.splits)

lemma saveCharacters_nothing: "saveCharacters E db [] [] = (None, db)"
  by (simp add: saveCharacters_def)

text \<open>
  Claim C4. A contract that is not accepted leaves the batch as it is, in the additive
  and in the subtractive mode: the step of the loop returns the rows (all their
  counters and timestamps) unchanged and binds no identity. A batch therefore gives
  what the batch of its accepted contracts gives, and a batch of unaccepted contracts
  alone writes nothing and returns no error.
\<close>

theorem unaccepted_contract_noop:
  "(\<not> Accepted contract \<longrightarrow>
      contractStep E db affiliations addition contract st = Inr st)
   \<and> SaveCharacterContracts E db contracts affiliations addition =
       SaveCharacterContracts E db (filter Accepted contracts) affiliations addition
   \<and> ((\<forall>c \<in> set contracts. \<not> Accepted c) \<longrightarrow>
        SaveCharacterContracts E db contracts affiliations addition = Inr (None, db))"
proof (intro conjI impI)
  assume "\<not> Accepted contract"
  then show "contractStep E db affiliations addition contract st = Inr st"
    by (rule contractStep_unaccepted)
next
  show "SaveCharacterContracts E db contracts affiliations addition =
       SaveCharacterContracts E db (filter Accepted contracts) affiliations addition"
    unfolding SaveCharacterContracts_def
    by (subst contractLoop_filter) (rule refl)
next
  assume "\<forall>c \<in> set contracts. \<not> Accepted c"
  then have "filter Accepted contracts = []"
    by (simp add: filter_empty_conv)
  then have "contractLoop E db affiliations addition contracts ([], [], []) = Inr ([], [], [])"
    by (subst contractLoop_filter) simp
  then show "SaveCharacterContracts E db contracts affiliations addition = Inr (None, db)"
    by (simp add: SaveCharacterContracts_def saveCharacters_nothing)
qed

text \<open>Claim C4, at an unaccepted contract between 1 and 2 in the subtractive mode.\<close>

theorem unaccepted_contract_noop_witness:
  "\<not> Accepted \<lparr> Contract.Donator = 1, Receiver = 2, Accepted = False \<rparr>
   \<and> contractStep (memEnv []) [] [affiliated 1 10, affiliated 2 20] False
       \<lparr> Contract.Donator = 1, Receiver = 2, Accepted = False \<rparr>
       ([zeroCharacterRow\<lparr> ID := 1, Donated := 4 \<rparr>], [], [1])
     = Inr ([zeroCharacterRow\<lparr> ID := 1, Donated := 4 \<rparr>], [], [1])
   \<and> SaveCharacterContracts (memEnv []) [] [\<lparr> Contract.Donator = 1, Receiver = 2, Accepted = False \<rparr>]
       [affiliated 1 10, affiliated 2 20] False
     = Inr (None, [])"
  using unaccepted_contract_noop [of "\<lparr> Contract.Donator = 1, Receiver = 2, Accepted = False \<rparr>"
      "memEnv []" "[]" "[affiliated 1 10, affiliated 2 20]" False
      "([zeroCharacterRow\<lparr> ID := 1, Donated := 4 \<rparr>], [], [1])"
      "[\<lparr> Contract.Donator = 1, Receiver = 2, Accepted = False \<rparr>]"]
  by (simp add: SaveCharacterContracts_def saveCharacters_def)

section \<open>A missing affiliation\<close>

text \<open>The lookup panics for an identity without an entry; with every \<open>Character\<close>
  pointer set, the panic is the one \<open>getAffiliation\<close> raises itself.\<close>

lemma getAffiliation_noAffiliation:
  "noAffiliation charID affiliations \<Longrightarrow> isl (getAffiliation charID affiliations)"
  by (induction affiliations) (auto simp: noAffiliation_def split: option.splits)

lemma getAffiliation_no_entry:
  "noAffiliation charID affiliations \<Longrightarrow>
   list_all (\<lambda>aff. Character aff \<noteq> None) affiliations \<Longrightarrow>
   getAffiliation charID affiliations =
     Inl (Panic (''no affiliation found for character '' @ fmt_d (sint charID)))"
  by (induction affiliations) (auto simp: noAffiliation_def split: option.splits)

lemma bindAffiliation_noAffiliation:
  "noAffiliation charID affiliations \<Longrightarrow> isl (bindAffiliation E db charID affiliations)"
  using getAffiliation_noAffiliation [of charID affiliations]
  by (auto simp: bindAffiliation_def isl_def)

text \<open>Every identity the batch has bound has an entry, and the inner loop, where it
  returns, has bound all the identities it was given.\<close>

lemma bindAll_bound:
  "bindAll E db affiliations ids (n, u, a) = Inr (n', u', a') \<Longrightarrow>
   \<forall>charID \<in> set a. \<not> noAffiliation charID affiliations \<Longrightarrow>
   (\<forall>charID \<in> set a'. \<not> noAffiliation charID affiliations) \<and> set a \<union> set ids \<subseteq> set a'"
proof (induction ids arbitrary: n u a)
  case Nil
  then show ?case by simp
next
  case (Cons charID ids)
  show ?case
  proof (cases "inInt32 charID a")
    case True
    with Cons.prems have "bindAll E db affiliations ids (n, u, a) = Inr (n', u', a')"
      by simp
    from Cons.IH [OF this Cons.prems(2)] True show ?thesis
      by (auto simp: inInt32_def)
  next
    case False
    with Cons.prems(1) obtain char new where
      b: "bindAffiliation E db charID affiliations = Inr (char, new)"
      by (auto split: sum.splits)
    then have ok: "\<not> noAffiliation charID affiliations"
      using bindAffiliation_noAffiliation [of charID affiliations E db] by auto
    from Cons.prems(1) False b obtain n1 u1 where
      r: "bindAll E db affiliations ids (n1, u1, a @ [charID]) = Inr (n', u', a')"
      by (auto split: if_splits)
    have "\<forall>c \<in> set (a @ [charID]). \<not> noAffiliation c affiliations"
      using Cons.prems(2) ok by auto
    from Cons.IH [OF r this] show ?thesis
      by auto
  qed
qed

lemma bindAll_panics:
  assumes "charID \<in> set ids" and "noAffiliation charID affiliations"
    and "\<forall>c \<in> set a. \<not> noAffiliation c affiliations"
  shows "isl (bindAll E db affiliations ids (n, u, a))"
proof (rule ccontr)
  assume "\<not> isl (bindAll E db affiliations ids (n, u, a))"
  then obtain n' u' a' where "bindAll E db affiliations ids (n, u, a) = Inr (n', u', a')"
    by (cases "bindAll E db affiliations ids (n, u, a)") auto
  from bindAll_bound [OF this assms(3)] assms(1,2) show False
    by auto
qed

text \<open>The loops over the events end in a panic when an event they process names an
  identity without an entry.\<close>

lemma donationLoop_panics:
  assumes "\<exists>d \<in> set donations.
             noAffiliation (Donation.Donator d) affiliations
           \<or> noAffiliation (Recipient d) affiliations"
    and "\<forall>c \<in> set (snd (snd st)). \<not> noAffiliation c affiliations"
  shows "isl (donationLoop E db affiliations addition donations st)"
  using assms
proof (induction donations arbitrary: st)
  case Nil
  then show ?case by simp
next
  case (Cons d donations)
  obtain n u a where st: "st = (n, u, a)"
    by (cases st) auto
  show ?case
  proof (cases "bindAll E db affiliations [Donation.Donator d, Recipient d] (n, u, a)")
    case (Inl p)
    then show ?thesis
      by (simp add: st donationStep_def del: bindAll.simps)
  next
    case (Inr st1)
    obtain n1 u1 a1 where st1: "st1 = (n1, u1, a1)"
      by (cases st1) auto
    have inv: "\<forall>c \<in> set a. \<not> noAffiliation c affiliations"
      using Cons.prems(2) st by simp
    from bindAll_bound [OF Inr [unfolded st1] inv]
    have inv1: "\<forall>c \<in> set a1. \<not> noAffiliation c affiliations"
      and here: "\<not> noAffiliation (Donation.Donator d) affiliations"
                "\<not> noAffiliation (Recipient d) affiliations"
      by auto
    obtain st2 where step: "donationStep E db affiliations addition d st = Inr st2"
      and a2: "snd (snd st2) = a1"
      by (simp add: donationStep_def st Inr st1 Let_def del: bindAll.simps)
    from Cons.prems(1) here have rest: "\<exists>d \<in> set donations.
             noAffiliation (Donation.Donator d) affiliations
           \<or> noAffiliation (Recipient d) affiliations"
      by auto
    have "isl (donationLoop E db affiliations addition donations st2)"
      by (rule Cons.IH [OF rest]) (simp add: a2 inv1)
    then show ?thesis
      by (simp add: step)
  qed
qed

lemma contractLoop_panics:
  assumes "\<exists>c \<in> set contracts. Accepted c \<and>
             (noAffiliation (Contract.Donator c) affiliations
              \<or> noAffiliation (Receiver c) affiliations)"
    and "\<forall>c \<in> set (snd (snd st)). \<not> noAffiliation c affiliations"
  shows "isl (contractLoop E db affiliations addition contracts st)"
  using assms
proof (induction contracts arbitrary: st)
  case Nil
  then show ?case by simp
next
  case (Cons c contracts)
  obtain n u a where st: "st = (n, u, a)"
    by (cases st) auto
  have inv: "\<forall>c \<in> set a. \<not> noAffiliation c affiliations"
    using Cons.prems(2) st by simp
  show ?case
  proof (cases "Accepted c")
    case False
    with Cons.prems(1) have rest: "\<exists>c \<in> set contracts. Accepted c \<and>
             (noAffiliation (Contract.Donator c) affiliations
              \<or> noAffiliation (Receiver c) affiliations)"
      by auto
    from Cons.IH [OF rest Cons.prems(2)] False show ?thesis
      by (simp add: contractStep_def)
  next
    case True
    show ?thesis
    proof (cases "bindAll E db affiliations [Contract.Donator c, Receiver c] (n, u, a)")
      case (Inl p)
      then show ?thesis
        by (simp add: st contractStep_def True del: bindAll.simps)
    next
      case (Inr st1)
      obtain n1 u1 a1 where st1: "st1 = (n1, u1, a1)"
        by (cases st1) auto
      from bindAll_bound [OF Inr [unfolded st1] inv]
      have inv1: "\<forall>c \<in> set a1. \<not> noAffiliation c affiliations"
        and here: "\<not> noAffiliation (Contract.Donator c) affiliations"
                  "\<not> noAffiliation (Receiver c) affiliations"
        by auto
      obtain st2 where step: "contractStep E db affiliations addition c st = Inr st2"
        and a2: "snd (snd st2) = a1"
        by (simp add: contractStep_def st Inr st1 True Let_def del: bindAll.simps)
      from Cons.prems(1) here have rest: "\<exists>c \<in> set contracts. Accepted c \<and>
             (noAffiliation (Contract.Donator c) affiliations
              \<or> noAffiliation (Receiver c) affiliations)"
        by auto
      have "isl (contractLoop E db affiliations addition contracts st2)"
        by (rule Cons.IH [OF rest]) (simp add: a2 inv1)
      then show ?thesis
        by (simp add: step)
    qed
  qed
qed

text \<open>
  Claim C6, as stated, fails for contracts: an unaccepted contract is passed over before
  its participants are looked up. The batch of one unaccepted contract between 1 and 2,
  with no affiliation supplied at all, does not abort: it returns no error.
\<close>

theorem missing_affiliation_counterexample:
  "noAffiliation 1 [] \<and> noAffiliation 2 []
   \<and> SaveCharacterContracts (memEnv []) []
        [\<lparr> Contract.Donator = 1, Receiver = 2, Accepted = False \<rparr>] [] True
       = Inr (None, [])"
  by (simp add: noAffiliation_def SaveCharacterContracts_def contractStep_def
      saveCharacters_def)

text \<open>
  Claim C6, amended. If any donation of a batch, or any accepted contract of a batch,
  names an identity for which the affiliations have no entry, the batch ends in a
  panic, in either mode: \<open>getAffiliation\<close> and the binder panic for such an identity
  (with the message \<open>no affiliation found for character\<close> and the id, when no
  \<open>Character\<close> pointer of the list is nil), and \<open>SaveCharacterDonations\<close> and
  \<open>SaveCharacterContracts\<close> return the panic, not an error value. The panic is raised
  in the loop over the events, before the commit: nothing is written.
\<close>

theorem missing_affiliation_panics:
  "(noAffiliation charID affiliations \<longrightarrow>
      isl (getAffiliation charID affiliations)
    \<and> isl (bindAffiliation E db charID affiliations))
   \<and> (noAffiliation charID affiliations
       \<and> list_all (\<lambda>aff. Character aff \<noteq> None) affiliations \<longrightarrow>
      getAffiliation charID affiliations =
        Inl (Panic (''no affiliation found for character '' @ fmt_d (sint charID))))
   \<and> ((\<exists>d \<in> set donations.
          noAffiliation (Donation.Donator d) affiliations
        \<or> noAffiliation (Recipient d) affiliations) \<longrightarrow>
      isl (SaveCharacterDonations E db donations affiliations addition))
   \<and> ((\<exists>c \<in> set contracts. Accepted c \<and>
          (noAffiliation (Contract.Donator c) affiliations
           \<or> noAffiliation (Receiver c) affiliations)) \<longrightarrow>
      isl (SaveCharacterContracts E db contracts affiliations addition))"
proof (intro conjI impI)
  assume "noAffiliation charID affiliations"
  then show "isl (getAffiliation charID affiliations)"
    and "isl (bindAffiliation E db charID affiliations)"
    by (simp_all add: getAffiliation_noAffiliation bindAffiliation_noAffiliation)
next
  assume "noAffiliation charID affiliations
       \<and> list_all (\<lambda>aff. Character aff \<noteq> None) affiliations"
  then show "getAffiliation charID affiliations =
        Inl (Panic (''no affiliation found for character '' @ fmt_d (sint charID)))"
    by (simp add: getAffiliation_no_entry)
next
  assume "\<exists>d \<in> set donations.
          noAffiliation (Donation.Donator d) affiliations
        \<or> noAffiliation (Recipient d) affiliations"
  then have "isl (donationLoop E db affiliations addition donations ([], [], []))"
    by (rule donationLoop_panics) simp
  then show "isl (SaveCharacterDonations E db donations affiliations addition)"
    by (auto simp: SaveCharacterDonations_def isl_def)
next
  assume "\<exists>c \<in> set contracts. Accepted c \<and>
          (noAffiliation (Contract.Donator c) affiliations
           \<or> noAffiliation (Receiver c) affiliations)"
  then have "isl (contractLoop E db affiliations addition contracts ([], [], []))"
    by (rule contractLoop_panics) simp
  then show "isl (SaveCharacterContracts E db contracts affiliations addition)"
    by (auto simp: SaveCharacterContracts_def isl_def)
qed

lemma decimal_200: "decimal 200 = ''200''"
  by (simp add: decimal.simps)

text \<open>Claim C6, amended, at a donation and an accepted contract from 100 to 200 with an
  affiliation for 100 alone.\<close>

theorem missing_affiliation_panics_witness:
  "noAffiliation 200 [affiliated 100 10]
   \<and> list_all (\<lambda>aff. Character aff \<noteq> None) [affiliated 100 10]
   \<and> getAffiliation 200 [affiliated 100 10] =
       Inl (Panic ''no affiliation found for character 200'')
   \<and> isl (SaveCharacterDonations (memEnv []) [] [donated 100 200 5 1] [affiliated 100 10] True)
   \<and> isl (SaveCharacterContracts (memEnv []) []
            [\<lparr> Contract.Donator = 100, Receiver = 200, Accepted = True \<rparr>] [affiliated 100 10] False)"
proof -
  have n: "noAffiliation 200 [affiliated 100 10]"
    and l: "list_all (\<lambda>aff. Character aff \<noteq> None) [affiliated 100 10]"
    by (simp_all add: noAffiliation_def affiliated_def)
  have d: "\<exists>d \<in> set [donated 100 200 5 1].
             noAffiliation (Donation.Donator d) [affiliated 100 10]
           \<or> noAffiliation (Recipient d) [affiliated 100 10]"
    using n by (simp add: donated_def)
  have c: "\<exists>c \<in> set [\<lparr> Contract.Donator = 100, Receiver = 200, Accepted = True \<rparr>]. Accepted c \<and>
             (noAffiliation (Contract.Donator c) [affiliated 100 10]
              \<or> noAffiliation (Receiver c) [affiliated 100 10])"
    using n by simp
  show ?thesis
    using n l d c missing_affiliation_panics [of 200 "[affiliated 100 10]" "memEnv []" "[]"
        "[donated 100 200 5 1]" True]
      missing_affiliation_panics [of 200 "[affiliated 100 10]" "memEnv []" "[]"
        "[]" False "[\<lparr> Contract.Donator = 100, Receiver = 200, Accepted = True \<rparr>]"]
    by (simp add: fmt_d_def decimal_200)
qed

section \<open>Rounding\<close>

text \<open>A character that is found is returned as the projection of its stored row;
  the names do not reach the row made of it.\<close>

lemma GetCharacter_found:
  assumes "queryNamedResult E db StmtCharDetails charID = Inr rows"
    and "scan E rows = Inr (stored # rest)"
    and "GetNames E db
           (filter (\<lambda>id. 0 < sint id) [ID stored, CorporationID stored, AllianceID stored])
         = Inr names"
  shows "\<exists>char. GetCharacter E db charID = Inr char
           \<and> toRow char = toRow (toCharacter (round2 E) stored)"
  using assms
  by (simp add: GetCharacter_def scanCharacterRow_def getCharacterNames_def Let_def toRow_def)

lemma toRow_toCharacter_sums:
  "DonatedISK (toRow (toCharacter rnd c)) = rnd (DonatedISK c)"
  "DonatedISK30 (toRow (toCharacter rnd c)) = rnd (DonatedISK30 c)"
  "ReceivedISK (toRow (toCharacter rnd c)) = rnd (ReceivedISK c)"
  "ReceivedISK30 (toRow (toCharacter rnd c)) = rnd (ReceivedISK30 c)"
  "Donated (toRow (toCharacter rnd c)) = Donated c"
  "Donated30 (toRow (toCharacter rnd c)) = Donated30 c"
  "Received (toRow (toCharacter rnd c)) = Received c"
  "Received30 (toRow (toCharacter rnd c)) = Received30 c"
  "ID (toRow (toCharacter rnd c)) = ID c"
  by (simp_all add: toRow_def toCharacter_def Let_def)

text \<open>The spec's rounding at 12.345 and at 0, and the sums of the example.\<close>

lemma round2_spec_12_345: "round2_spec 0x4028B0A3D70A3D71 = 0x4028B33333333333"
  by (simp add: round2_spec_def f64_eval cong: let_weak_cong)

lemma round2_spec_zero: "round2_spec 0 = 0"
  by (simp add: round2_spec_def f64_eval cong: let_weak_cong)

lemma f64_add_12_35: "f64_add 0x4028B33333333333 0x3F747AE147AE147B = 0x4028B5C28F5C28F6"
  by (simp add: f64_eval cong: let_weak_cong)

lemma f64_add_12_345: "f64_add 0x4028B0A3D70A3D71 0x3F747AE147AE147B = 0x4028B33333333334"
  by (simp add: f64_eval cong: let_weak_cong)

lemma f64_add_zero_0_005: "f64_add 0 0x3F747AE147AE147B = 0x3F747AE147AE147B"
  by (simp add: f64_eval cong: let_weak_cong)

lemma ID_storedDonator: "ID storedDonator = 100"
  by (simp add: storedDonator_def)

lemma bind_storedDonator:
  "bindAffiliation (memEnv []) [storedDonator] 100 [affiliated 100 10, affiliated 200 20]
   = Inr (storedDonator\<lparr> CorporationID := 10, DonatedISK := 0x4028B33333333333 \<rparr>, False)"
  by (simp add: bindAffiliation_def affiliated_def GetCharacter_def memEnv_def memQuery_def
      scanCharacterRow_def getCharacterNames_def memNames_def toCharacter_def toRow_def
      storedDonator_def zeroCharacterRow_def IsZero_def round2_spec_12_345 round2_spec_zero)

lemma bind_absent_recipient:
  "bindAffiliation (memEnv []) [storedDonator] 200 [affiliated 100 10, affiliated 200 20]
   = Inr (zeroCharacterRow\<lparr> ID := 200, CorporationID := 20 \<rparr>, True)"
  by (simp add: bindAffiliation_def affiliated_def GetCharacter_memEnv_absent
      ID_storedDonator zeroCharacterRow_def)

text \<open>
  Claim C1, as stated, fails for an existing row: the binder loads it with
  \<open>GetCharacter\<close>, which returns the read-facing projection, and turns that back into
  a row. The stored \<open>DonatedISK = 12.345\<close> of the character 100 is bound as 12.35
  (\<open>0x4028B33333333333\<close>); after a donation of 0.005 (\<open>0x3F747AE147AE147B\<close>) the row
  is written back with \<open>DonatedISK = 12.355\<close> (\<open>0x4028B5C28F5C28F6\<close>), where the sum
  from the unrounded value is \<open>12.350000000000001\<close> (\<open>0x4028B33333333334\<close>).
\<close>

theorem rounding_feeds_back_counterexample:
  "DonatedISK storedDonator = 0x4028B0A3D70A3D71
   \<and> bindAffiliation (memEnv []) [storedDonator] 100 [affiliated 100 10, affiliated 200 20]
     = Inr (storedDonator\<lparr> CorporationID := 10, DonatedISK := 0x4028B33333333333 \<rparr>, False)
   \<and> SaveCharacterDonations (memEnv []) [storedDonator]
        [donated 100 200 0x3F747AE147AE147B 1] [affiliated 100 10, affiliated 200 20] True
     = Inr (None,
            [storedDonator\<lparr> CorporationID := 10, Donated := 4,
               DonatedISK := 0x4028B5C28F5C28F6, Donated30 := 1,
               DonatedISK30 := 0x3F747AE147AE147B,
               LastDonated := \<lparr> Time = 1, Valid = True \<rparr> \<rparr>,
             firstReceipt 200 20 0x3F747AE147AE147B 1])
   \<and> f64_add 0x4028B0A3D70A3D71 0x3F747AE147AE147B = 0x4028B33333333334"
  (is "?stored \<and> ?bound \<and> ?saved \<and> ?unrounded")
proof -
  let ?sent = "storedDonator\<lparr> CorporationID := 10, Donated := 4,
                 DonatedISK := 0x4028B5C28F5C28F6, Donated30 := 1,
                 DonatedISK30 := 0x3F747AE147AE147B,
                 LastDonated := \<lparr> Time = 1, Valid = True \<rparr> \<rparr>"
  let ?got = "firstReceipt 200 20 0x3F747AE147AE147B 1"
  have loop: "donationLoop (memEnv []) [storedDonator]
        [affiliated 100 10, affiliated 200 20] True
        [donated 100 200 0x3F747AE147AE147B 1] ([], [], [])
      = Inr ([?got], [?sent], [100, 200])"
    by (simp add: donationStep_def donated_def inInt32_def bind_storedDonator
        bind_absent_recipient)
       (simp add: addToTotals_def addToTotals_char_def Let_def storedDonator_def
        zeroCharacterRow_def firstReceipt_def f64_add_12_35 f64_add_zero_0_005)
  have save: "saveCharacters (memEnv []) [storedDonator] [?got] [?sent]
      = (None, [?sent, ?got])"
    by (simp add: saveCharacters_def NewCharacter_def updateCharacter_def executeChar_def
        memEnv_def memExecute_def firstReceipt_def storedDonator_def zeroCharacterRow_def)
  have ?saved
    unfolding SaveCharacterDonations_def loop by (simp add: save)
  moreover have ?stored
    by (simp add: storedDonator_def)
  ultimately show ?thesis
    using bind_storedDonator f64_add_12_345 by (intro conjI)
qed

text \<open>
  Claim C1, amended. The monetary sums are rounded to 2 decimal places by the
  read-facing projection \<open>toCharacter\<close> alone: additive application adds the amount to
  the sum it is given and the commit passes the row on as it is. But the binder loads
  an existing row through that projection, so for an existing row the accumulator
  starts from the stored sums rounded by \<open>round2\<close>, and the counts as stored.
\<close>

theorem binder_loads_rounded:
  assumes "queryNamedResult E db StmtCharDetails charID = Inr rows"
    and "scan E rows = Inr (stored # rest)"
    and "GetNames E db
           (filter (\<lambda>id. 0 < sint id) [ID stored, CorporationID stored, AllianceID stored])
         = Inr names"
    and "getAffiliation charID affiliations = Inr aff"
    and "Corporation aff = Some corp"
  shows "\<exists>row. bindAffiliation E db charID affiliations = Inr (row, False)
           \<and> DonatedISK row = round2 E (DonatedISK stored)
           \<and> DonatedISK30 row = round2 E (DonatedISK30 stored)
           \<and> ReceivedISK row = round2 E (ReceivedISK stored)
           \<and> ReceivedISK30 row = round2 E (ReceivedISK30 stored)
           \<and> Donated row = Donated stored \<and> Donated30 row = Donated30 stored
           \<and> Received row = Received stored \<and> Received30 row = Received30 stored
           \<and> ID row = ID stored
           \<and> (ID row = Donation.Donator donation \<longrightarrow>
                DonatedISK (addToTotals_char donation row)
                  = f64_add (round2 E (DonatedISK stored)) (Amount donation)
              \<and> DonatedISK30 (addToTotals_char donation row)
                  = f64_add (round2 E (DonatedISK30 stored)) (Amount donation))
           \<and> (ID row \<noteq> Donation.Donator donation \<and> ID row = Recipient donation \<longrightarrow>
                ReceivedISK (addToTotals_char donation row)
                  = f64_add (round2 E (ReceivedISK stored)) (Amount donation)
              \<and> ReceivedISK30 (addToTotals_char donation row)
                  = f64_add (round2 E (ReceivedISK30 stored)) (Amount donation))
           \<and> executeChar E db' (addToTotals_char donation row) StmtUpdateCharacter
               = executeNamed E db' StmtUpdateCharacter (addToTotals_char donation row)"
proof -
  from GetCharacter_found [OF assms(1-3)] obtain char where
    g: "GetCharacter E db charID = Inr char"
    and r: "toRow char = toRow (toCharacter (round2 E) stored)"
    by blast
  define row0 where "row0 = toRow (toCharacter (round2 E) stored)"
  define row where "row = (case Alliance aff of
      None \<Rightarrow> row0\<lparr> CorporationID := Name.ID corp \<rparr>
    | Some ally \<Rightarrow> row0\<lparr> CorporationID := Name.ID corp, AllianceID := Name.ID ally \<rparr>)"
  have b: "bindAffiliation E db charID affiliations = Inr (row, False)"
    by (simp add: bindAffiliation_def assms(4,5) g r row_def row0_def split: option.splits)
  have f: "DonatedISK row = round2 E (DonatedISK stored)"
    "DonatedISK30 row = round2 E (DonatedISK30 stored)"
    "ReceivedISK row = round2 E (ReceivedISK stored)"
    "ReceivedISK30 row = round2 E (ReceivedISK30 stored)"
    "Donated row = Donated stored" "Donated30 row = Donated30 stored"
    "Received row = Received stored" "Received30 row = Received30 stored"
    "ID row = ID stored"
    by (simp_all add: row_def row0_def toRow_toCharacter_sums split: option.splits)
  have a: "ID row = Donation.Donator donation \<longrightarrow>
             DonatedISK (addToTotals_char donation row)
               = f64_add (round2 E (DonatedISK stored)) (Amount donation)
           \<and> DonatedISK30 (addToTotals_char donation row)
               = f64_add (round2 E (DonatedISK30 stored)) (Amount donation)"
    and a': "ID row \<noteq> Donation.Donator donation \<and> ID row = Recipient donation \<longrightarrow>
             ReceivedISK (addToTotals_char donation row)
               = f64_add (round2 E (ReceivedISK stored)) (Amount donation)
           \<and> ReceivedISK30 (addToTotals_char donation row)
               = f64_add (round2 E (ReceivedISK30 stored)) (Amount donation)"
    by (simp_all add: addToTotals_char_def Let_def f)
  have e: "executeChar E db' (addToTotals_char donation row) StmtUpdateCharacter
             = executeNamed E db' StmtUpdateCharacter (addToTotals_char donation row)"
    by (simp add: executeChar_def)
  from b f a a' e show ?thesis
    by blast
qed

text \<open>Claim C1, amended, at the stored row of the character 100 in the example
  store.\<close>

theorem binder_loads_rounded_witness:
  "queryNamedResult (memEnv []) [storedDonator] StmtCharDetails 100 = Inr [storedDonator]
   \<and> scan (memEnv []) [storedDonator] = Inr [storedDonator]
   \<and> getAffiliation 100 [affiliated 100 10] = Inr (affiliated 100 10)
   \<and> Corporation (affiliated 100 10) = Some \<lparr> Name.ID = 10 \<rparr>
   \<and> (\<exists>row. bindAffiliation (memEnv []) [storedDonator] 100 [affiliated 100 10]
               = Inr (row, False)
        \<and> DonatedISK row = 0x4028B33333333333 \<and> Donated row = 3)"
proof -
  have q: "queryNamedResult (memEnv []) [storedDonator] StmtCharDetails 100
             = Inr [storedDonator]"
    by (simp add: memEnv_def memQuery_def ID_storedDonator)
  have s: "scan (memEnv []) [storedDonator] = Inr (storedDonator # [])"
    by (simp add: memEnv_def)
  have g: "GetNames (memEnv []) [storedDonator]
             (filter (\<lambda>id. 0 < sint id)
                [ID storedDonator, CorporationID storedDonator, AllianceID storedDonator])
           = Inr Map.empty"
    by (simp add: memEnv_def memNames_def)
  have a: "getAffiliation 100 [affiliated 100 10] = Inr (affiliated 100 10)"
    and c: "Corporation (affiliated 100 10) = Some \<lparr> Name.ID = 10 \<rparr>"
    by (simp_all add: affiliated_def)
  have r: "round2 (memEnv []) = round2_spec"
    by (simp add: memEnv_def)
  from binder_loads_rounded [OF q s g a c]
  obtain row where
    "bindAffiliation (memEnv []) [storedDonator] 100 [affiliated 100 10] = Inr (row, False)"
    and "DonatedISK row = round2 (memEnv []) (DonatedISK storedDonator)"
    and "Donated row = Donated storedDonator"
    by blast
  then have "\<exists>row. bindAffiliation (memEnv []) [storedDonator] 100 [affiliated 100 10]
                     = Inr (row, False)
        \<and> DonatedISK row = 0x4028B33333333333 \<and> Donated row = 3"
    by (simp add: r round2_spec_12_345 storedDonator_def zeroCharacterRow_def)
  with q s a c show ?thesis
    by simp
qed

end
